theory Spec2Isabelle
  imports
    Main
    "HOL-Library.Word"
    "HOL-Library.Char_ord"
    "HOL-Library.List_Lexorder"
begin

section \<open>Announcements router: data model\<close>

text \<open>
  The module \<^verbatim>\<open>src/backend/routers/announcements.py\<close> holds five request handlers
  over two document collections. A document is a Python dictionary from field names to
  values; the values that occur are strings, \<^verbatim>\<open>None\<close> (stored as null) and
  the object identifier of the document store, which is a string of bytes.
\<close>

type_synonym oid = "8 word list"

datatype bson = BNull | BStr string | BOid oid

type_synonym document = "string \<rightharpoonup> bson"

text \<open>
  A stored announcement is its \<^verbatim>\<open>_id\<close> together with its other fields: the
  store gives every document an \<^verbatim>\<open>_id\<close>, and the handlers only ever address
  announcements through object identifiers. A teacher is stored under its username.
\<close>

type_synonym stored = "oid \<times> document"

record database =
  announcements_collection :: "stored list"
  teachers_collection :: "(string \<times> document) list"

text \<open>
  The errors a handler can end with: the three \<^verbatim>\<open>HTTPException\<close>s it raises
  itself (status code and detail), the store's refusal of a second document with the same
  \<^verbatim>\<open>_id\<close>, and the subscript of \<^verbatim>\<open>None\<close> that
  \<^verbatim>\<open>updated["_id"]\<close> would be if the re-read in update found nothing.
\<close>

datatype error = HTTPException nat string | DuplicateKeyError | TypeError

subsection \<open>Object identifiers\<close>

text \<open>
  \<^verbatim>\<open>str\<close> of an identifier is two lower-case hexadecimal digits for each of its
  bytes.
\<close>

definition hex_digit :: "nat \<Rightarrow> char" where
  "hex_digit n = (if n < 10 then char_of (48 + n) else char_of (87 + n))"

definition str_oid :: "oid \<Rightarrow> string" where
  "str_oid i = concat (map (\<lambda>b. [hex_digit (unat b div 16), hex_digit (unat b mod 16)]) i)"

text \<open>
  The identifier that the driver generates for an inserted document has twelve bytes. The
  handlers get the 96 bits from outside; these are their bytes, the most significant first.
\<close>

fun to_bytes :: "nat \<Rightarrow> nat \<Rightarrow> oid" where
  "to_bytes 0 n = []"
| "to_bytes (Suc k) n = to_bytes k (n div 256) @ [word_of_nat (n mod 256)]"

definition generated :: "96 word \<Rightarrow> oid" where
  "generated w = to_bytes 12 (unat w)"

text \<open>
  The constructor \<^verbatim>\<open>ObjectId(s)\<close> from a string belongs to the driver, not to
  the module: it either returns an identifier or raises. The handlers that call it take
  it as the function \<open>ObjectId\<close>, whose value \<open>None\<close> stands for the exception.
\<close>

subsection \<open>The operations of a collection\<close>

text \<open>The dictionary that \<^verbatim>\<open>find\<close> and \<^verbatim>\<open>find_one\<close> hand out.\<close>

definition as_dict :: "stored \<Rightarrow> document" where
  "as_dict r = (snd r)(''_id'' \<mapsto> BOid (fst r))"

definition find_one :: "oid \<Rightarrow> stored list \<Rightarrow> stored option" where
  "find_one i coll = find (\<lambda>r. fst r = i) coll"

definition find_teacher :: "string \<Rightarrow> (string \<times> document) list \<Rightarrow> (string \<times> document) option" where
  "find_teacher username coll = find (\<lambda>t. fst t = username) coll"

text \<open>
  \<^verbatim>\<open>insert_one\<close> appends the document under the identifier the driver made for
  it, and raises when that identifier is taken.
\<close>

definition insert_one :: "oid \<Rightarrow> document \<Rightarrow> stored list \<Rightarrow> stored list option" where
  "insert_one i d coll = (if i \<in> set (map fst coll) then None else Some (coll @ [(i, d)]))"

text \<open>\<^verbatim>\<open>update_one\<close> with \<^verbatim>\<open>$set\<close>: the first match takes the new fields.\<close>

fun update_one :: "oid \<Rightarrow> document \<Rightarrow> stored list \<Rightarrow> stored list" where
  "update_one i u [] = []"
| "update_one i u (r # rs) =
     (if fst r = i then (fst r, snd r ++ u) # rs else r # update_one i u rs)"

text \<open>\<^verbatim>\<open>delete_one\<close>: the first match goes; the count of deleted documents comes back.\<close>

fun delete_one :: "oid \<Rightarrow> stored list \<Rightarrow> nat \<times> stored list" where
  "delete_one i [] = (0, [])"
| "delete_one i (r # rs) =
     (if fst r = i then (1, rs)
      else (fst (delete_one i rs), r # snd (delete_one i rs)))"

subsection \<open>Query operators\<close>

text \<open>
  Comparison operators of the store match a field only against a value of the same
  type: a string bound matches string fields, ordered as byte strings.
\<close>

definition gte :: "document \<Rightarrow> string \<Rightarrow> string \<Rightarrow> bool" where
  "gte d k v = (case d k of Some (BStr x) \<Rightarrow> v \<le> x | _ \<Rightarrow> False)"

definition lte :: "document \<Rightarrow> string \<Rightarrow> string \<Rightarrow> bool" where
  "lte d k v = (case d k of Some (BStr x) \<Rightarrow> x \<le> v | _ \<Rightarrow> False)"

definition exists_False :: "document \<Rightarrow> string \<Rightarrow> bool" where
  "exists_False d k = (d k = None)"

text \<open>A query for \<^verbatim>\<open>None\<close> matches a null field and a missing one.\<close>

definition eq_None :: "document \<Rightarrow> string \<Rightarrow> bool" where
  "eq_None d k = (d k = None \<or> d k = Some BNull)"

subsection \<open>Sorting by \<^verbatim>\<open>created_at\<close>, descending\<close>

text \<open>
  The store orders values of different types by type (null and missing first, then
  strings, then object identifiers) and values of one type among themselves.
\<close>

fun bson_rank :: "bson option \<Rightarrow> nat" where
  "bson_rank None = 0"
| "bson_rank (Some BNull) = 0"
| "bson_rank (Some (BStr s)) = 1"
| "bson_rank (Some (BOid i)) = 2"

fun bson_le :: "bson option \<Rightarrow> bson option \<Rightarrow> bool" where
  "bson_le (Some (BStr x)) (Some (BStr y)) = (x \<le> y)"
| "bson_le (Some (BOid x)) (Some (BOid y)) = (x \<le> y)"
| "bson_le a b = (bson_rank a \<le> bson_rank b)"

fun insort_desc :: "string \<Rightarrow> stored \<Rightarrow> stored list \<Rightarrow> stored list" where
  "insort_desc k x [] = [x]"
| "insort_desc k x (y # ys) =
     (if bson_le (snd y k) (snd x k) then x # y # ys else y # insort_desc k x ys)"

definition sort_desc :: "string \<Rightarrow> stored list \<Rightarrow> stored list" where
  "sort_desc k rs = foldr (insort_desc k) rs []"

section \<open>The handlers\<close>

text \<open>
  What the handlers take from outside the module is passed in: the reading of the clock
  \<^verbatim>\<open>datetime.utcnow().isoformat()\<close>, the bits of the identifier the driver
  generates for an inserted document, the constructor \<^verbatim>\<open>ObjectId\<close>, and
  \<^verbatim>\<open>datetime.fromisoformat\<close>, of which only whether it returns or raises
  \<^verbatim>\<open>ValueError\<close> matters. A handler that changes a collection
  returns the database next to its result. The teacher that \<^verbatim>\<open>find_one\<close>
  returns is a dictionary with an \<^verbatim>\<open>_id\<close>, hence true in
  \<^verbatim>\<open>if not teacher\<close>; only \<^verbatim>\<open>None\<close> is refused.
\<close>

text \<open>\<^verbatim>\<open>s.replace('Z', '+00:00')\<close>: every occurrence is replaced.\<close>

definition replace_Z :: "string \<Rightarrow> string" where
  "replace_Z s = concat (map (\<lambda>c. if c = CHR ''Z'' then ''+00:00'' else [c]) s)"

text \<open>The loop that turns \<^verbatim>\<open>_id\<close> into the string field \<^verbatim>\<open>id\<close>.\<close>

definition with_id :: "document \<Rightarrow> oid \<Rightarrow> document" where
  "with_id d i = (d(''id'' \<mapsto> BStr (str_oid i)))(''_id'' := None)"

definition serialize :: "stored \<Rightarrow> document" where
  "serialize r = with_id (as_dict r) (fst r)"

text \<open>A Python \<^verbatim>\<open>Optional[str]\<close> as a stored value.\<close>

fun py_value :: "string option \<Rightarrow> bson" where
  "py_value None = BNull"
| "py_value (Some s) = BStr s"

definition active_query :: "string \<Rightarrow> document \<Rightarrow> bool" where
  "active_query current_time d =
     (gte d ''expiration_date'' current_time \<and>
      (exists_False d ''start_date'' \<or> eq_None d ''start_date'' \<or>
       lte d ''start_date'' current_time))"

definition get_active_announcements :: "string \<Rightarrow> database \<Rightarrow> document list" where
  "get_active_announcements current_time db =
     map serialize
       (sort_desc ''created_at''
          (filter (\<lambda>r. active_query current_time (as_dict r)) (announcements_collection db)))"

definition get_all_announcements :: "database \<Rightarrow> string \<Rightarrow> error + document list" where
  "get_all_announcements db username =
     (case find_teacher username (teachers_collection db) of
        None \<Rightarrow> Inl (HTTPException 401 ''Unauthorized'')
      | Some teacher \<Rightarrow>
          Inr (map serialize (sort_desc ''created_at'' (announcements_collection db))))"

text \<open>
  \<^verbatim>\<open>if start_date:\<close> guards the second validation: \<^verbatim>\<open>None\<close> and the
  empty string are both false there.
\<close>

fun start_date_raises :: "(string \<Rightarrow> bool) \<Rightarrow> string option \<Rightarrow> bool" where
  "start_date_raises fromisoformat None = False"
| "start_date_raises fromisoformat (Some s) =
     (if s = [] then False else \<not> fromisoformat (replace_Z s))"

definition create_announcement ::
  "(string \<Rightarrow> bool) \<Rightarrow> string \<Rightarrow> 96 word \<Rightarrow> database \<Rightarrow>
   string \<Rightarrow> string \<Rightarrow> string \<Rightarrow> string \<Rightarrow> string option \<Rightarrow> (error + document) \<times> database" where
  "create_announcement fromisoformat utcnow new_id db title message expiration_date username start_date =
     (case find_teacher username (teachers_collection db) of
        None \<Rightarrow> (Inl (HTTPException 401 ''Unauthorized''), db)
      | Some teacher \<Rightarrow>
          if \<not> fromisoformat (replace_Z expiration_date)
          then (Inl (HTTPException 400 ''Invalid expiration date format''), db)
          else if start_date_raises fromisoformat start_date
          then (Inl (HTTPException 400 ''Invalid start date format''), db)
          else
            let announcement =
              [''title'' \<mapsto> BStr title,
               ''message'' \<mapsto> BStr message,
               ''start_date'' \<mapsto> py_value start_date,
               ''expiration_date'' \<mapsto> BStr expiration_date,
               ''created_by'' \<mapsto> BStr username,
               ''created_at'' \<mapsto> BStr utcnow]
            in (case insert_one (generated new_id) announcement (announcements_collection db) of
                  None \<Rightarrow> (Inl DuplicateKeyError, db)
                | Some coll \<Rightarrow>
                    (Inr (with_id (as_dict (generated new_id, announcement)) (generated new_id)),
                     db\<lparr>announcements_collection := coll\<rparr>)))"

definition update_announcement ::
  "(string \<Rightarrow> bool) \<Rightarrow> (string \<Rightarrow> oid option) \<Rightarrow> string \<Rightarrow> database \<Rightarrow>
   string \<Rightarrow> string \<Rightarrow> string \<Rightarrow> string \<Rightarrow> string \<Rightarrow> string option \<Rightarrow> (error + document) \<times> database" where
  "update_announcement fromisoformat ObjectId utcnow db announcement_id title message expiration_date username start_date =
     (case find_teacher username (teachers_collection db) of
        None \<Rightarrow> (Inl (HTTPException 401 ''Unauthorized''), db)
      | Some teacher \<Rightarrow>
         (case ObjectId announcement_id of
            None \<Rightarrow> (Inl (HTTPException 400 ''Invalid announcement ID''), db)
          | Some obj_id \<Rightarrow>
             (case find_one obj_id (announcements_collection db) of
                None \<Rightarrow> (Inl (HTTPException 404 ''Announcement not found''), db)
              | Some existing \<Rightarrow>
                  if \<not> fromisoformat (replace_Z expiration_date)
                  then (Inl (HTTPException 400 ''Invalid expiration date format''), db)
                  else if start_date_raises fromisoformat start_date
                  then (Inl (HTTPException 400 ''Invalid start date format''), db)
                  else
                    let update_data =
                          [''title'' \<mapsto> BStr title,
                           ''message'' \<mapsto> BStr message,
                           ''start_date'' \<mapsto> py_value start_date,
                           ''expiration_date'' \<mapsto> BStr expiration_date,
                           ''updated_by'' \<mapsto> BStr username,
                           ''updated_at'' \<mapsto> BStr utcnow];
                        coll = update_one obj_id update_data (announcements_collection db);
                        db' = db\<lparr>announcements_collection := coll\<rparr>
                    in (case find_one obj_id coll of
                          None \<Rightarrow> (Inl TypeError, db')
                        | Some updated \<Rightarrow> (Inr (serialize updated), db')))))"

definition delete_announcement ::
  "(string \<Rightarrow> oid option) \<Rightarrow> database \<Rightarrow> string \<Rightarrow> string \<Rightarrow>
   (error + (string \<rightharpoonup> string)) \<times> database" where
  "delete_announcement ObjectId db announcement_id username =
     (case find_teacher username (teachers_collection db) of
        None \<Rightarrow> (Inl (HTTPException 401 ''Unauthorized''), db)
      | Some teacher \<Rightarrow>
         (case ObjectId announcement_id of
            None \<Rightarrow> (Inl (HTTPException 400 ''Invalid announcement ID''), db)
          | Some obj_id \<Rightarrow>
              let result = delete_one obj_id (announcements_collection db);
                  db' = db\<lparr>announcements_collection := snd result\<rparr>
              in if fst result = 0
                 then (Inl (HTTPException 404 ''Announcement not found''), db')
                 else (Inr [''message'' \<mapsto> ''Announcement deleted successfully''], db')))"

section \<open>Example data\<close>

text \<open>
  A stand-in for \<^verbatim>\<open>datetime.fromisoformat\<close> on the few strings the examples
  use: it accepts the three well-formed timestamps below and rejects everything else,
  among them the empty string and \<^verbatim>\<open>not-a-date\<close>, as the library function
  does.
\<close>

definition fromisoformat_example :: "string \<Rightarrow> bool" where
  "fromisoformat_example s =
     (s = ''2099-01-01T00:00:00+00:00'' \<or> s = ''2026-12-01T00:00:00''
      \<or> s = ''2026-11-03T11:00:00+05:00'')"

text \<open>
  A stand-in for the driver's \<^verbatim>\<open>ObjectId\<close> on the strings the examples use:
  the two strings of 24 hexadecimal digits give the identifiers whose bytes they spell,
  and everything else is refused, among them \<^verbatim>\<open>not-an-id\<close>, which has not 24
  characters, as the driver does.
\<close>

definition ObjectId_example :: "string \<Rightarrow> oid option" where
  "ObjectId_example s =
     (if s = ''000000000000000000000001'' then Some (generated 1)
      else if s = ''000000000000000000000002'' then Some (generated 2)
      else None)"

definition exam :: stored where
  "exam = (generated 1,
     [''title'' \<mapsto> BStr ''Exam'',
      ''message'' \<mapsto> BStr ''Final exam Friday'',
      ''start_date'' \<mapsto> BNull,
      ''expiration_date'' \<mapsto> BStr ''2099-01-01T00:00:00Z'',
      ''created_by'' \<mapsto> BStr ''teacher1'',
      ''created_at'' \<mapsto> BStr ''2026-05-01T08:00:00''])"

definition school_db :: database where
  "school_db = \<lparr>announcements_collection = [exam],
      teachers_collection = [(''teacher1'', Map.empty)]\<rparr>"

text \<open>The announcement of the specification's example, as create stores it.\<close>

definition notice :: document where
  "notice =
     [''title'' \<mapsto> BStr ''Exam'',
      ''message'' \<mapsto> BStr ''Final exam Friday'',
      ''start_date'' \<mapsto> BNull,
      ''expiration_date'' \<mapsto> BStr ''2099-01-01T00:00:00Z'',
      ''created_by'' \<mapsto> BStr ''teacher1'',
      ''created_at'' \<mapsto> BStr ''2026-11-03T10:00:00'']"

text \<open>The fields an update of the first announcement sets.\<close>

definition exam_update :: document where
  "exam_update =
     [''title'' \<mapsto> BStr ''Exam moved'',
      ''message'' \<mapsto> BStr ''Final exam Monday'',
      ''start_date'' \<mapsto> BStr ''2026-12-01T00:00:00'',
      ''expiration_date'' \<mapsto> BStr ''2099-01-01T00:00:00Z'',
      ''updated_by'' \<mapsto> BStr ''teacher1'',
      ''updated_at'' \<mapsto> BStr ''2026-11-03T10:00:00'']"

text \<open>
  A notice board with three announcements: one that expired in February 2026 and has no
  start date at all, the exam, and one that only starts in 2027.
\<close>

definition expired :: stored where
  "expired = (generated 2,
     [''title'' \<mapsto> BStr ''Snow day'',
      ''message'' \<mapsto> BStr ''School is closed today'',
      ''expiration_date'' \<mapsto> BStr ''2026-02-01T00:00:00'',
      ''created_by'' \<mapsto> BStr ''teacher1'',
      ''created_at'' \<mapsto> BStr ''2026-01-10T09:00:00''])"

definition scheduled :: stored where
  "scheduled = (generated 3,
     [''title'' \<mapsto> BStr ''Spring fair'',
      ''message'' \<mapsto> BStr ''Sign up at the office'',
      ''start_date'' \<mapsto> BStr ''2027-01-01T00:00:00'',
      ''expiration_date'' \<mapsto> BStr ''2027-06-30T00:00:00'',
      ''created_by'' \<mapsto> BStr ''teacher1'',
      ''created_at'' \<mapsto> BStr ''2026-09-01T12:00:00''])"

definition notice_board :: database where
  "notice_board = \<lparr>announcements_collection = [expired, exam, scheduled],
      teachers_collection = [(''teacher1'', Map.empty)]\<rparr>"

text \<open>
  A school before its first announcement, a store without any teacher, and the
  announcement that create stores when \<^verbatim>\<open>teacher1\<close> announces, at five o'clock
  UTC on 3 November 2026, an early closing that expires at eleven o'clock of a zone five
  hours ahead of UTC, which is six o'clock UTC.
\<close>

definition staff_room :: database where
  "staff_room = \<lparr>announcements_collection = [],
      teachers_collection = [(''teacher1'', Map.empty)]\<rparr>"

definition empty_school :: database where
  "empty_school = \<lparr>announcements_collection = [], teachers_collection = []\<rparr>"

definition early_closing :: stored where
  "early_closing = (generated 7,
     [''title'' \<mapsto> BStr ''Early closing'',
      ''message'' \<mapsto> BStr ''School ends at noon'',
      ''start_date'' \<mapsto> BNull,
      ''expiration_date'' \<mapsto> BStr ''2026-11-03T11:00:00+05:00'',
      ''created_by'' \<mapsto> BStr ''teacher1'',
      ''created_at'' \<mapsto> BStr ''2026-11-03T05:00:00''])"

section \<open>Facts about the model\<close>

subsection \<open>Collection operations\<close>

lemma find_one_None_iff: "find_one i coll = None \<longleftrightarrow> i \<notin> fst ` set coll"
  by (force simp: find_one_def find_None_iff)

lemma find_one_Some_fst: "find_one i coll = Some r \<Longrightarrow> fst r = i \<and> r \<in> set coll"
  by (auto simp: find_one_def find_Some_iff)

lemma find_one_append:
  "find_one i (xs @ ys) = (case find_one i xs of None \<Rightarrow> find_one i ys | Some r \<Rightarrow> Some r)"
  by (induction xs) (auto simp: find_one_def)

lemma delete_one_absent: "i \<notin> fst ` set coll \<Longrightarrow> delete_one i coll = (0, coll)"
  by (induction coll) auto

lemma delete_one_present: "i \<in> fst ` set coll \<Longrightarrow> fst (delete_one i coll) = 1"
  by (induction coll) auto

lemma delete_one_distinct:
  "distinct (map fst coll) \<Longrightarrow> i \<in> fst ` set coll \<Longrightarrow>
     snd (delete_one i coll) = filter (\<lambda>r. fst r \<noteq> i) coll"
proof (induction coll)
  case Nil
  then show ?case by simp
next
  case (Cons r rs)
  show ?case
  proof (cases "fst r = i")
    case True
    with Cons.prems have "i \<notin> fst ` set rs" by auto
    then have "filter (\<lambda>r. fst r \<noteq> i) rs = rs" by (auto simp: filter_id_conv)
    with True show ?thesis by simp
  next
    case False
    with Cons show ?thesis by auto
  qed
qed

lemma length_filter_distinct:
  "distinct (map fst coll) \<Longrightarrow> i \<in> fst ` set coll \<Longrightarrow>
     Suc (length (filter (\<lambda>r. fst r \<noteq> i) coll)) = length coll"
proof (induction coll)
  case Nil
  then show ?case by simp
next
  case (Cons r rs)
  show ?case
  proof (cases "fst r = i")
    case True
    with Cons.prems have "i \<notin> fst ` set rs" by auto
    then have "filter (\<lambda>r. fst r \<noteq> i) rs = rs" by (auto simp: filter_id_conv)
    with True show ?thesis by simp
  next
    case False
    with Cons show ?thesis by auto
  qed
qed

lemma update_one_find:
  "find_one i coll = Some e \<Longrightarrow> find_one i (update_one i u coll) = Some (i, snd e ++ u)"
  by (induction coll) (auto simp: find_one_def)

lemma update_one_other: "j \<noteq> i \<Longrightarrow> find_one j (update_one i u coll) = find_one j coll"
  by (induction coll) (auto simp: find_one_def)

lemma update_one_ids: "map fst (update_one i u coll) = map fst coll"
  by (induction coll) auto

text \<open>
  The store keeps \<^verbatim>\<open>_id\<close> unique. The three writing operations keep it so.
\<close>

lemma insert_one_distinct:
  "distinct (map fst coll) \<Longrightarrow> insert_one i d coll = Some coll' \<Longrightarrow> distinct (map fst coll')"
  by (auto simp: insert_one_def split: if_splits)

lemma update_one_distinct:
  "distinct (map fst coll) \<Longrightarrow> distinct (map fst (update_one i u coll))"
  by (simp add: update_one_ids)

lemma delete_one_subset: "set (snd (delete_one i coll)) \<subseteq> set coll"
  by (induction coll) auto

lemma delete_one_keeps_distinct:
  "distinct (map fst coll) \<Longrightarrow> distinct (map fst (snd (delete_one i coll)))"
proof (induction coll)
  case Nil
  then show ?case by simp
next
  case (Cons r rs)
  from delete_one_subset [of i rs] have "fst ` set (snd (delete_one i rs)) \<subseteq> fst ` set rs"
    by (rule image_mono)
  with Cons show ?case by auto
qed

subsection \<open>Identifiers and serialization\<close>

lemma length_to_bytes: "length (to_bytes k n) = k"
  by (induction k arbitrary: n) auto

lemma length_generated: "length (generated w) = 12"
  by (simp add: generated_def length_to_bytes)

lemma str_oid_generated: "str_oid (generated w) \<noteq> []"
proof (cases "generated w")
  case Nil
  then have "length (generated w) = 0" by simp
  then show ?thesis by (simp add: length_generated)
next
  case (Cons b bs)
  then show ?thesis by (simp add: str_oid_def)
qed

lemma to_bytes_inj: "to_bytes k n = to_bytes k m \<Longrightarrow> n mod 256 ^ k = m mod 256 ^ k"
proof (induction k arbitrary: n m)
  case 0
  show ?case by simp
next
  case (Suc k)
  from Suc.prems have init: "to_bytes k (n div 256) = to_bytes k (m div 256)"
    and last: "(word_of_nat (n mod 256) :: 8 word) = word_of_nat (m mod 256)"
    by simp_all
  from init have "n div 256 mod 256 ^ k = m div 256 mod 256 ^ k" by (rule Suc.IH)
  moreover from last have "unat (word_of_nat (n mod 256) :: 8 word) = unat (word_of_nat (m mod 256) :: 8 word)"
    by simp
  then have "n mod 256 = m mod 256" by (simp add: unat_of_nat)
  ultimately show ?case by (simp add: mod_mult2_eq)
qed

lemma generated_eq_iff [simp]: "generated a = generated b \<longleftrightarrow> a = b"
proof
  assume "generated a = generated b"
  then have eq: "unat a mod 256 ^ 12 = unat b mod 256 ^ 12"
    unfolding generated_def by (rule to_bytes_inj)
  have p: "(256::nat) ^ 12 = 2 ^ 96" by simp
  have "unat a < 2 ^ 96" "unat b < 2 ^ 96"
    using unsigned_less [of a, where 'a = nat] unsigned_less [of b, where 'a = nat] by simp_all
  with eq have "unat a = unat b" by (simp only: p mod_less)
  then show "a = b" by (rule unsigned_word_eqI)
next
  assume "a = b"
  then show "generated a = generated b" by simp
qed

lemma serialize_id: "serialize r ''id'' = Some (BStr (str_oid (fst r)))"
  by (simp add: serialize_def with_id_def)

lemma serialize_other: "k \<noteq> ''id'' \<Longrightarrow> k \<noteq> ''_id'' \<Longrightarrow> serialize r k = snd r k"
  by (simp add: serialize_def with_id_def as_dict_def)

subsection \<open>The replacement of Z\<close>

lemma replace_Z_no_Z: "CHR ''Z'' \<notin> set t \<Longrightarrow> replace_Z t = t"
  by (induction t) (auto simp: replace_Z_def)

lemma replace_Z_append: "replace_Z (s @ t) = replace_Z s @ replace_Z t"
  by (simp add: replace_Z_def)

lemma replace_Z_trailing: "CHR ''Z'' \<notin> set t \<Longrightarrow> replace_Z (t @ ''Z'') = t @ ''+00:00''"
  by (simp add: replace_Z_append replace_Z_no_Z) (simp add: replace_Z_def)

subsection \<open>The descending sort\<close>

lemma bson_le_total: "bson_le a b \<or> bson_le b a"
  by (cases a rule: bson_rank.cases; cases b rule: bson_rank.cases) auto

lemma bson_le_trans: "bson_le a b \<Longrightarrow> bson_le b c \<Longrightarrow> bson_le a c"
  by (cases a rule: bson_rank.cases; cases b rule: bson_rank.cases; cases c rule: bson_rank.cases)
    auto

lemma set_insort_desc: "set (insort_desc k x ys) = insert x (set ys)"
  by (induction ys) auto

lemma length_insort_desc: "length (insort_desc k x ys) = Suc (length ys)"
  by (induction ys) auto

lemma set_sort_desc: "set (sort_desc k rs) = set rs"
  by (induction rs) (auto simp: sort_desc_def set_insort_desc)

lemma length_sort_desc: "length (sort_desc k rs) = length rs"
  by (induction rs) (auto simp: sort_desc_def length_insort_desc)

lemma sorted_insort_desc:
  "sorted_wrt (\<lambda>a b. bson_le (snd b k) (snd a k)) ys \<Longrightarrow>
     sorted_wrt (\<lambda>a b. bson_le (snd b k) (snd a k)) (insort_desc k x ys)"
proof (induction ys)
  case Nil
  then show ?case by simp
next
  case (Cons y ys)
  show ?case
  proof (cases "bson_le (snd y k) (snd x k)")
    case True
    have "bson_le (snd z k) (snd x k)" if "z \<in> set ys" for z
    proof -
      from Cons.prems that have "bson_le (snd z k) (snd y k)" by simp
      then show ?thesis using True by (rule bson_le_trans)
    qed
    with True Cons.prems show ?thesis by simp
  next
    case False
    then have "bson_le (snd x k) (snd y k)" using bson_le_total by blast
    with False Cons show ?thesis by (simp add: set_insort_desc)
  qed
qed

lemma sorted_sort_desc: "sorted_wrt (\<lambda>a b. bson_le (snd b k) (snd a k)) (sort_desc k rs)"
proof (induction rs)
  case Nil
  show ?case by (simp add: sort_desc_def)
next
  case (Cons r rs)
  then have "sorted_wrt (\<lambda>a b. bson_le (snd b k) (snd a k)) (insort_desc k r (sort_desc k rs))"
    by (rule sorted_insort_desc)
  then show ?case by (simp add: sort_desc_def)
qed

lemma sorted_serialized:
  "sorted_wrt (\<lambda>a b. bson_le (b ''created_at'') (a ''created_at''))
     (map serialize (sort_desc ''created_at'' rs))"
  using sorted_sort_desc [of "''created_at''" rs]
  by (simp add: sorted_wrt_map serialize_other)

subsection \<open>The examples, evaluated\<close>

lemma ObjectId_bad: "ObjectId_example ''not-an-id'' = None"
  by (simp add: ObjectId_example_def)

lemma ObjectId_1: "ObjectId_example ''000000000000000000000001'' = Some (generated 1)"
  by (simp add: ObjectId_example_def)

lemma ObjectId_2: "ObjectId_example ''000000000000000000000002'' = Some (generated 2)"
  by (simp add: ObjectId_example_def)

lemma teacher1_found:
  "find_teacher ''teacher1'' (teachers_collection school_db) = Some (''teacher1'', Map.empty)"
  by (simp add: find_teacher_def school_db_def)

lemma unknown_teacher_example:
  "find_teacher ''mallory'' (teachers_collection school_db) = None"
  by (simp add: find_teacher_def school_db_def)

lemma no_teacher_at_all:
  "find_teacher ''mallory'' (teachers_collection empty_school) = None"
  by (simp add: find_teacher_def empty_school_def)

lemma teacher1_in_staff_room:
  "find_teacher ''teacher1'' (teachers_collection staff_room) = Some (''teacher1'', Map.empty)"
  by (simp add: find_teacher_def staff_room_def)

lemma staff_room_fresh: "generated w \<notin> fst ` set (announcements_collection staff_room)"
  by (simp add: staff_room_def)

lemma school_db_no_2: "find_one (generated 2) (announcements_collection school_db) = None"
  by (simp add: find_one_def school_db_def exam_def)

lemma school_db_fresh_2: "generated 2 \<notin> fst ` set (announcements_collection school_db)"
  by (simp add: school_db_def exam_def)

lemma school_db_find_1: "find_one (generated 1) (announcements_collection school_db) = Some exam"
  by (simp add: find_one_def school_db_def exam_def)

lemma school_db_distinct: "distinct (map fst (announcements_collection school_db))"
  by (simp add: school_db_def)

lemma not_a_date_rejected: "\<not> fromisoformat_example (replace_Z ''not-a-date'')"
  by (simp add: fromisoformat_example_def replace_Z_def)

lemma expiration_example_accepted: "fromisoformat_example (replace_Z ''2099-01-01T00:00:00Z'')"
  by (simp add: fromisoformat_example_def replace_Z_def)

lemma start_example_accepted: "fromisoformat_example (replace_Z ''2026-12-01T00:00:00'')"
  by (simp add: fromisoformat_example_def replace_Z_def)

lemma empty_rejected: "\<not> fromisoformat_example (replace_Z [])"
  by (simp add: fromisoformat_example_def replace_Z_def)

lemma offset_example_accepted:
  "fromisoformat_example (replace_Z ''2026-11-03T11:00:00+05:00'')"
  by (simp add: fromisoformat_example_def replace_Z_def)

lemma create_example:
  "create_announcement fromisoformat_example ''2026-11-03T10:00:00'' 2 school_db
        ''Exam'' ''Final exam Friday'' ''2099-01-01T00:00:00Z'' ''teacher1'' None
     = (Inr (serialize (generated 2, notice)),
        school_db\<lparr>announcements_collection := [exam, (generated 2, notice)]\<rparr>)"
  using teacher1_found expiration_example_accepted school_db_fresh_2
  by (simp add: create_announcement_def insert_one_def Let_def serialize_def notice_def)
    (simp add: school_db_def)

lemma update_example:
  "update_announcement fromisoformat_example ObjectId_example ''2026-11-03T10:00:00'' school_db
       ''000000000000000000000001'' ''Exam moved'' ''Final exam Monday''
       ''2099-01-01T00:00:00Z'' ''teacher1'' (Some ''2026-12-01T00:00:00'')
     = (Inr (serialize (generated 1, snd exam ++ exam_update)),
        school_db\<lparr>announcements_collection := [(generated 1, snd exam ++ exam_update)]\<rparr>)"
proof -
  have coll: "announcements_collection school_db = [exam]" by (simp add: school_db_def)
  have one: "fst exam = generated 1" by (simp add: exam_def)
  show ?thesis
    using teacher1_found ObjectId_1 school_db_find_1 expiration_example_accepted
      start_example_accepted
    by (simp add: update_announcement_def Let_def exam_update_def coll one find_one_def)
qed

lemma board_distinct: "distinct (map fst (announcements_collection notice_board))"
  by (simp add: notice_board_def expired_def exam_def scheduled_def)

lemma board_sorted:
  "sort_desc ''created_at'' (announcements_collection notice_board) = [scheduled, exam, expired]"
proof -
  have keys: "snd expired ''created_at'' = Some (BStr ''2026-01-10T09:00:00'')"
    "snd exam ''created_at'' = Some (BStr ''2026-05-01T08:00:00'')"
    "snd scheduled ''created_at'' = Some (BStr ''2026-09-01T12:00:00'')"
    by (simp_all add: expired_def exam_def scheduled_def)
  show ?thesis
    by (simp add: notice_board_def sort_desc_def keys less_eq_list_code)
qed

lemma get_all_board:
  "get_all_announcements notice_board ''teacher1'' = Inr (map serialize [scheduled, exam, expired])"
proof -
  have "find_teacher ''teacher1'' (teachers_collection notice_board) = Some (''teacher1'', Map.empty)"
    by (simp add: find_teacher_def notice_board_def)
  then show ?thesis
    by (simp add: get_all_announcements_def board_sorted)
qed

section \<open>The active announcements\<close>

text \<open>
  C1 says that list-active returns an announcement if and only if its expiration date is
  at or after the current time (and its start date, if any, is not after it). The handler
  does not do that for every date that create accepts. Its query compares the stored
  timestamp strings with the string of the clock byte by byte, and never the instants
  they denote. The announcement \<open>early_closing\<close>, which create accepts and stores, expires
  at \<^verbatim>\<open>2026-11-03T11:00:00+05:00\<close>, which is six o'clock UTC. At ten o'clock UTC
  of that day, four hours after it expired, list-active still returns it, because the
  string \<^verbatim>\<open>2026-11-03T11:00:00+05:00\<close> is greater than the string
  \<^verbatim>\<open>2026-11-03T10:00:00\<close>.
\<close>

theorem list_active_returns_expired_offset:
  "create_announcement fromisoformat_example ''2026-11-03T05:00:00'' 7 staff_room
       ''Early closing'' ''School ends at noon'' ''2026-11-03T11:00:00+05:00'' ''teacher1'' None
     = (Inr (serialize early_closing),
        staff_room\<lparr>announcements_collection := [early_closing]\<rparr>)
   \<and> get_active_announcements ''2026-11-03T10:00:00''
        (staff_room\<lparr>announcements_collection := [early_closing]\<rparr>)
     = [serialize early_closing]"
proof -
  have made: "create_announcement fromisoformat_example ''2026-11-03T05:00:00'' 7 staff_room
       ''Early closing'' ''School ends at noon'' ''2026-11-03T11:00:00+05:00'' ''teacher1'' None
     = (Inr (serialize early_closing),
        staff_room\<lparr>announcements_collection := [early_closing]\<rparr>)"
    using teacher1_in_staff_room offset_example_accepted staff_room_fresh [of 7]
    by (simp add: create_announcement_def insert_one_def Let_def serialize_def early_closing_def)
      (simp add: staff_room_def)
  have query: "active_query ''2026-11-03T10:00:00'' (as_dict early_closing)"
    by (simp add: active_query_def gte_def exists_False_def eq_None_def lte_def as_dict_def
        early_closing_def less_eq_list_code)
  have listed: "get_active_announcements ''2026-11-03T10:00:00''
        (staff_room\<lparr>announcements_collection := [early_closing]\<rparr>)
     = [serialize early_closing]"
    using query by (simp add: get_active_announcements_def sort_desc_def)
  from made listed show ?thesis by (rule conjI)
qed

section \<open>Malformed identifiers\<close>

text \<open>
  C2, as the handlers have it. For a known teacher, update and delete answer an
  identifier string on which the constructor \<^verbatim>\<open>ObjectId\<close> raises with status 400
  and the detail "Invalid announcement ID", and an identifier string of which
  \<^verbatim>\<open>ObjectId\<close> makes an identifier that no stored announcement has with status 404
  and the detail "Announcement not found": two different errors. The database is the same
  afterwards in all four cases.
\<close>

theorem malformed_id_is_bad_request:
  assumes "find_teacher username (teachers_collection db) = Some teacher"
    and "ObjectId malformed = None"
    and "ObjectId absent = Some i"
    and "find_one i (announcements_collection db) = None"
  shows "update_announcement fromisoformat ObjectId utcnow db malformed title message expiration_date username start_date
           = (Inl (HTTPException 400 ''Invalid announcement ID''), db)
       \<and> delete_announcement ObjectId db malformed username
           = (Inl (HTTPException 400 ''Invalid announcement ID''), db)
       \<and> update_announcement fromisoformat ObjectId utcnow db absent title message expiration_date username start_date
           = (Inl (HTTPException 404 ''Announcement not found''), db)
       \<and> delete_announcement ObjectId db absent username
           = (Inl (HTTPException 404 ''Announcement not found''), db)"
proof -
  from assms(4) have "i \<notin> fst ` set (announcements_collection db)"
    by (simp add: find_one_None_iff)
  then have del: "delete_one i (announcements_collection db) = (0, announcements_collection db)"
    by (rule delete_one_absent)
  show ?thesis
    using assms del by (simp add: update_announcement_def delete_announcement_def)
qed

theorem malformed_id_is_bad_request_witness:
  "update_announcement fromisoformat_example ObjectId_example ''2026-11-03T10:00:00'' school_db ''not-an-id''
       ''t'' ''m'' ''2099-01-01T00:00:00Z'' ''teacher1'' None
     = (Inl (HTTPException 400 ''Invalid announcement ID''), school_db)
   \<and> delete_announcement ObjectId_example school_db ''not-an-id'' ''teacher1''
     = (Inl (HTTPException 400 ''Invalid announcement ID''), school_db)
   \<and> update_announcement fromisoformat_example ObjectId_example ''2026-11-03T10:00:00'' school_db
       ''000000000000000000000002'' ''t'' ''m'' ''2099-01-01T00:00:00Z'' ''teacher1'' None
     = (Inl (HTTPException 404 ''Announcement not found''), school_db)
   \<and> delete_announcement ObjectId_example school_db ''000000000000000000000002'' ''teacher1''
     = (Inl (HTTPException 404 ''Announcement not found''), school_db)"
  by (rule malformed_id_is_bad_request [where ObjectId = ObjectId_example,
      OF teacher1_found ObjectId_bad ObjectId_2 school_db_no_2])

text \<open>
  C2 as stated fails: on the identifier \<^verbatim>\<open>not-an-id\<close>, on which
  \<^verbatim>\<open>ObjectId\<close> raises, a known teacher gets status 400 from update and from
  delete, not the 404 of a missing announcement.
\<close>

theorem malformed_id_not_found_counterexample:
  "fst (update_announcement fromisoformat_example ObjectId_example ''2026-11-03T10:00:00'' school_db ''not-an-id''
       ''t'' ''m'' ''2099-01-01T00:00:00Z'' ''teacher1'' None)
     = Inl (HTTPException 400 ''Invalid announcement ID'')
   \<and> fst (update_announcement fromisoformat_example ObjectId_example ''2026-11-03T10:00:00'' school_db ''not-an-id''
       ''t'' ''m'' ''2099-01-01T00:00:00Z'' ''teacher1'' None)
     \<noteq> Inl (HTTPException 404 ''Announcement not found'')
   \<and> fst (delete_announcement ObjectId_example school_db ''not-an-id'' ''teacher1'')
     = Inl (HTTPException 400 ''Invalid announcement ID'')
   \<and> fst (delete_announcement ObjectId_example school_db ''not-an-id'' ''teacher1'')
     \<noteq> Inl (HTTPException 404 ''Announcement not found'')"
  by (simp add: update_announcement_def delete_announcement_def find_teacher_def school_db_def
      ObjectId_bad)

section \<open>Authorization\<close>

text \<open>
  C3. In every database, with or without teachers, a username with no teacher record gets
  status 401 "Unauthorized" from list-all, create, update and delete, and the three
  mutating handlers leave the database as it was, so create persists nothing. A username
  that has a teacher record is never answered with status 401 by any of the four: the
  same lookup decides in each.
\<close>

theorem unknown_username_unauthorized:
  "(find_teacher unknown (teachers_collection db) = None \<longrightarrow>
       get_all_announcements db unknown = Inl (HTTPException 401 ''Unauthorized'')
     \<and> create_announcement fromisoformat utcnow new_id db title message expiration_date unknown start_date
         = (Inl (HTTPException 401 ''Unauthorized''), db)
     \<and> update_announcement fromisoformat ObjectId utcnow db announcement_id title message expiration_date unknown start_date
         = (Inl (HTTPException 401 ''Unauthorized''), db)
     \<and> delete_announcement ObjectId db announcement_id unknown
         = (Inl (HTTPException 401 ''Unauthorized''), db))
   \<and> (find_teacher known (teachers_collection db') = Some teacher \<longrightarrow>
       get_all_announcements db' known \<noteq> Inl (HTTPException 401 detail)
     \<and> fst (create_announcement fromisoformat utcnow new_id db' title message expiration_date known start_date)
         \<noteq> Inl (HTTPException 401 detail)
     \<and> fst (update_announcement fromisoformat ObjectId utcnow db' announcement_id title message expiration_date known start_date)
         \<noteq> Inl (HTTPException 401 detail)
     \<and> fst (delete_announcement ObjectId db' announcement_id known)
         \<noteq> Inl (HTTPException 401 detail))"
proof (intro conjI impI)
  assume u: "find_teacher unknown (teachers_collection db) = None"
  show "get_all_announcements db unknown = Inl (HTTPException 401 ''Unauthorized'')"
    using u by (simp add: get_all_announcements_def)
  show "create_announcement fromisoformat utcnow new_id db title message expiration_date unknown start_date
         = (Inl (HTTPException 401 ''Unauthorized''), db)"
    using u by (simp add: create_announcement_def)
  show "update_announcement fromisoformat ObjectId utcnow db announcement_id title message expiration_date unknown start_date
         = (Inl (HTTPException 401 ''Unauthorized''), db)"
    using u by (simp add: update_announcement_def)
  show "delete_announcement ObjectId db announcement_id unknown
         = (Inl (HTTPException 401 ''Unauthorized''), db)"
    using u by (simp add: delete_announcement_def)
next
  assume k: "find_teacher known (teachers_collection db') = Some teacher"
  show "get_all_announcements db' known \<noteq> Inl (HTTPException 401 detail)"
    using k by (simp add: get_all_announcements_def)
  show "fst (create_announcement fromisoformat utcnow new_id db' title message expiration_date known start_date)
         \<noteq> Inl (HTTPException 401 detail)"
    using k by (simp add: create_announcement_def Let_def split: option.split)
  show "fst (update_announcement fromisoformat ObjectId utcnow db' announcement_id title message expiration_date known start_date)
         \<noteq> Inl (HTTPException 401 detail)"
    using k by (simp add: update_announcement_def Let_def split: option.split)
  show "fst (delete_announcement ObjectId db' announcement_id known) \<noteq> Inl (HTTPException 401 detail)"
    using k by (simp add: delete_announcement_def Let_def split: option.split)
qed

theorem unknown_username_unauthorized_witness:
  "get_all_announcements empty_school ''mallory'' = Inl (HTTPException 401 ''Unauthorized'')
   \<and> create_announcement fromisoformat_example ''2026-11-03T10:00:00'' 2 empty_school
        ''t'' ''m'' ''2099-01-01T00:00:00Z'' ''mallory'' None
       = (Inl (HTTPException 401 ''Unauthorized''), empty_school)
   \<and> update_announcement fromisoformat_example ObjectId_example ''2026-11-03T10:00:00'' empty_school
        ''000000000000000000000001'' ''t'' ''m'' ''2099-01-01T00:00:00Z'' ''mallory'' None
       = (Inl (HTTPException 401 ''Unauthorized''), empty_school)
   \<and> delete_announcement ObjectId_example empty_school ''000000000000000000000001'' ''mallory''
       = (Inl (HTTPException 401 ''Unauthorized''), empty_school)
   \<and> create_announcement fromisoformat_example ''2026-11-03T10:00:00'' 2 school_db
        ''t'' ''m'' ''2099-01-01T00:00:00Z'' ''mallory'' None
       = (Inl (HTTPException 401 ''Unauthorized''), school_db)
   \<and> get_all_announcements school_db ''teacher1'' \<noteq> Inl (HTTPException 401 ''Unauthorized'')
   \<and> fst (create_announcement fromisoformat_example ''2026-11-03T10:00:00'' 2 school_db
        ''t'' ''m'' ''2099-01-01T00:00:00Z'' ''teacher1'' None)
       \<noteq> Inl (HTTPException 401 ''Unauthorized'')
   \<and> fst (update_announcement fromisoformat_example ObjectId_example ''2026-11-03T10:00:00'' school_db
        ''000000000000000000000001'' ''t'' ''m'' ''2099-01-01T00:00:00Z'' ''teacher1'' None)
       \<noteq> Inl (HTTPException 401 ''Unauthorized'')
   \<and> fst (delete_announcement ObjectId_example school_db ''000000000000000000000001'' ''teacher1'')
       \<noteq> Inl (HTTPException 401 ''Unauthorized'')"
  using unknown_username_unauthorized [where unknown = "''mallory''" and db = empty_school
      and known = "''teacher1''" and db' = school_db]
    unknown_username_unauthorized [where unknown = "''mallory''" and db = school_db
      and known = "''teacher1''" and db' = school_db]
    no_teacher_at_all unknown_teacher_example teacher1_found
  by simp

section \<open>Date validation in create\<close>

text \<open>
  C4, as the handler has it. When a known teacher calls create and the expiration date
  does not parse after the replacement of \<^verbatim>\<open>Z\<close>, or a start date that is
  not the empty string does not parse, create answers with status 400 and the database is
  unchanged.
\<close>

theorem unparsable_date_bad_request:
  assumes "find_teacher username (teachers_collection db) = Some teacher"
    and "\<not> fromisoformat (replace_Z expiration_date)
         \<or> (start_date = Some s \<and> s \<noteq> [] \<and> \<not> fromisoformat (replace_Z s))"
  shows "create_announcement fromisoformat utcnow new_id db title message expiration_date username start_date
           = (Inl (HTTPException 400
                 (if \<not> fromisoformat (replace_Z expiration_date)
                  then ''Invalid expiration date format'' else ''Invalid start date format'')), db)"
  using assms by (auto simp: create_announcement_def)

theorem unparsable_date_bad_request_witness:
  "create_announcement fromisoformat_example ''2026-11-03T10:00:00'' 2 school_db
      ''Exam'' ''Final exam Friday'' ''not-a-date'' ''teacher1'' None
     = (Inl (HTTPException 400 ''Invalid expiration date format''), school_db)
   \<and> create_announcement fromisoformat_example ''2026-11-03T10:00:00'' 2 school_db
      ''Exam'' ''Final exam Friday'' ''2099-01-01T00:00:00Z'' ''teacher1'' (Some ''not-a-date'')
     = (Inl (HTTPException 400 ''Invalid start date format''), school_db)"
  using unparsable_date_bad_request [OF teacher1_found, of fromisoformat_example "''not-a-date''" None "[]"
      "''2026-11-03T10:00:00''" 2 "''Exam''" "''Final exam Friday''"]
    unparsable_date_bad_request [OF teacher1_found, of fromisoformat_example "''2099-01-01T00:00:00Z''"
      "Some ''not-a-date''" "''not-a-date''" "''2026-11-03T10:00:00''" 2 "''Exam''" "''Final exam Friday''"]
    not_a_date_rejected expiration_example_accepted
  by simp

text \<open>
  C4 as stated fails in two ways. A supplied start date that is the empty string does not
  parse, yet create succeeds and stores a second announcement; and an unparsable
  expiration date sent by an unknown username is answered with status 401, not 400.
\<close>

theorem unparsable_date_counterexample:
  "\<not> fromisoformat_example (replace_Z '''')
   \<and> \<not> isl (fst (create_announcement fromisoformat_example ''2026-11-03T10:00:00'' 2 school_db
        ''Exam'' ''Final exam Friday'' ''2099-01-01T00:00:00Z'' ''teacher1'' (Some '''')))
   \<and> length (announcements_collection (snd (create_announcement fromisoformat_example
        ''2026-11-03T10:00:00'' 2 school_db
        ''Exam'' ''Final exam Friday'' ''2099-01-01T00:00:00Z'' ''teacher1'' (Some '''')))) = 2
   \<and> length (announcements_collection school_db) = 1
   \<and> \<not> fromisoformat_example (replace_Z ''not-a-date'')
   \<and> fst (create_announcement fromisoformat_example ''2026-11-03T10:00:00'' 2 school_db
        ''Exam'' ''Final exam Friday'' ''not-a-date'' ''mallory'' None)
       = Inl (HTTPException 401 ''Unauthorized'')"
  using empty_rejected not_a_date_rejected expiration_example_accepted
  by (simp add: create_announcement_def find_teacher_def school_db_def insert_one_def exam_def Let_def)

section \<open>Create\<close>

text \<open>
  C5. Whenever create succeeds, the database has exactly one more announcement, stored
  last under the identifier the driver generated, which no earlier announcement had. The
  returned record is that stored record with \<^verbatim>\<open>_id\<close> replaced by the string
  field \<^verbatim>\<open>id\<close>: every other field is the same. The \<^verbatim>\<open>id\<close> is the
  non-empty string of the new identifier, \<^verbatim>\<open>created_by\<close> is the calling
  username, \<^verbatim>\<open>created_at\<close> is the reading of the clock, and
  \<^verbatim>\<open>start_date\<close> is null when no start date was passed.
\<close>

theorem create_returns_persisted_record:
  assumes "create_announcement fromisoformat utcnow new_id db title message expiration_date username start_date
             = (Inr returned, db')"
  shows "\<exists>persisted.
           announcements_collection db' = announcements_collection db @ [(generated new_id, persisted)]
         \<and> teachers_collection db' = teachers_collection db
         \<and> generated new_id \<notin> fst ` set (announcements_collection db)
         \<and> find_one (generated new_id) (announcements_collection db') = Some (generated new_id, persisted)
         \<and> returned = serialize (generated new_id, persisted)
         \<and> (\<forall>k. k \<noteq> ''id'' \<and> k \<noteq> ''_id'' \<longrightarrow> returned k = persisted k)
         \<and> persisted ''_id'' = None
         \<and> returned ''id'' = Some (BStr (str_oid (generated new_id)))
         \<and> str_oid (generated new_id) \<noteq> []
         \<and> returned ''created_by'' = Some (BStr username)
         \<and> returned ''created_at'' = Some (BStr utcnow)
         \<and> returned ''title'' = Some (BStr title)
         \<and> returned ''message'' = Some (BStr message)
         \<and> returned ''expiration_date'' = Some (BStr expiration_date)
         \<and> (start_date = None \<longrightarrow> returned ''start_date'' = Some BNull)"
proof -
  define announcement :: document where
    "announcement = [''title'' \<mapsto> BStr title, ''message'' \<mapsto> BStr message,
       ''start_date'' \<mapsto> py_value start_date, ''expiration_date'' \<mapsto> BStr expiration_date,
       ''created_by'' \<mapsto> BStr username, ''created_at'' \<mapsto> BStr utcnow]"
  from assms have fresh: "generated new_id \<notin> fst ` set (announcements_collection db)"
    and ret: "returned = serialize (generated new_id, announcement)"
    and db': "db' = db\<lparr>announcements_collection := announcements_collection db @ [(generated new_id, announcement)]\<rparr>"
    by (auto simp: create_announcement_def insert_one_def Let_def serialize_def announcement_def
        split: option.splits if_splits)
  from fresh have "find_one (generated new_id) (announcements_collection db) = None"
    by (simp add: find_one_None_iff)
  then have found: "find_one (generated new_id) (announcements_collection db') = Some (generated new_id, announcement)"
    by (simp add: db' find_one_append) (simp add: find_one_def)
  have fields: "announcement ''_id'' = None"
    "announcement ''created_by'' = Some (BStr username)"
    "announcement ''created_at'' = Some (BStr utcnow)"
    "announcement ''title'' = Some (BStr title)"
    "announcement ''message'' = Some (BStr message)"
    "announcement ''expiration_date'' = Some (BStr expiration_date)"
    "start_date = None \<longrightarrow> announcement ''start_date'' = Some BNull"
    by (simp_all add: announcement_def)
  have other: "\<forall>k. k \<noteq> ''id'' \<and> k \<noteq> ''_id'' \<longrightarrow> returned k = announcement k"
    by (simp add: ret serialize_other)
  show ?thesis
    apply (rule exI [of _ announcement])
    using fresh found fields other str_oid_generated [of new_id]
    by (simp add: db' ret serialize_id serialize_other)
qed

theorem create_returns_persisted_record_witness:
  "create_announcement fromisoformat_example ''2026-11-03T10:00:00'' 2 school_db
        ''Exam'' ''Final exam Friday'' ''2099-01-01T00:00:00Z'' ''teacher1'' None
     = (Inr (serialize (generated 2, notice)),
        school_db\<lparr>announcements_collection := [exam, (generated 2, notice)]\<rparr>)
   \<and> serialize (generated 2, notice) ''id'' = Some (BStr (str_oid (generated 2)))
   \<and> str_oid (generated 2) \<noteq> []
   \<and> serialize (generated 2, notice) ''created_by'' = Some (BStr ''teacher1'')
   \<and> serialize (generated 2, notice) ''start_date'' = Some BNull"
proof -
  from create_returns_persisted_record [OF create_example] show ?thesis
    using create_example by auto
qed

section \<open>Update\<close>

text \<open>
  C6. Whenever update succeeds, the identifier is well-formed and names an announcement
  that was stored before; afterwards that announcement has the passed title, message,
  start date and expiration date, \<^verbatim>\<open>updated_by\<close> is the username and
  \<^verbatim>\<open>updated_at\<close> the reading of the clock, while \<^verbatim>\<open>created_by\<close> and
  \<^verbatim>\<open>created_at\<close> are what they were. The returned record is the serialization
  of the announcement as stored afterwards. No other announcement and no teacher changes.
\<close>

theorem update_replaces_and_stamps:
  assumes "update_announcement fromisoformat ObjectId utcnow db announcement_id title message expiration_date username start_date
             = (Inr returned, db')"
  shows "\<exists>i existing updated.
           ObjectId announcement_id = Some i
         \<and> find_one i (announcements_collection db) = Some (i, existing)
         \<and> find_one i (announcements_collection db') = Some (i, updated)
         \<and> returned = serialize (i, updated)
         \<and> updated ''title'' = Some (BStr title)
         \<and> updated ''message'' = Some (BStr message)
         \<and> updated ''start_date'' = Some (py_value start_date)
         \<and> updated ''expiration_date'' = Some (BStr expiration_date)
         \<and> updated ''updated_by'' = Some (BStr username)
         \<and> updated ''updated_at'' = Some (BStr utcnow)
         \<and> updated ''created_by'' = existing ''created_by''
         \<and> updated ''created_at'' = existing ''created_at''
         \<and> returned ''created_by'' = existing ''created_by''
         \<and> returned ''created_at'' = existing ''created_at''
         \<and> (\<forall>j. j \<noteq> i \<longrightarrow>
               find_one j (announcements_collection db') = find_one j (announcements_collection db))
         \<and> map fst (announcements_collection db') = map fst (announcements_collection db)
         \<and> teachers_collection db' = teachers_collection db"
proof -
  define update_data :: document where
    "update_data = [''title'' \<mapsto> BStr title, ''message'' \<mapsto> BStr message,
       ''start_date'' \<mapsto> py_value start_date, ''expiration_date'' \<mapsto> BStr expiration_date,
       ''updated_by'' \<mapsto> BStr username, ''updated_at'' \<mapsto> BStr utcnow]"
  from assms obtain i e where oid: "ObjectId announcement_id = Some i"
    and ex: "find_one i (announcements_collection db) = Some e"
    by (auto simp: update_announcement_def split: option.splits)
  from ex have e: "e = (i, snd e)"
    using find_one_Some_fst [of i "announcements_collection db" e] by (cases e) simp
  have upd: "find_one i (update_one i update_data (announcements_collection db))
               = Some (i, snd e ++ update_data)"
    using ex by (rule update_one_find)
  from assms oid ex upd
  have ret: "returned = serialize (i, snd e ++ update_data)"
    and db': "db' = db\<lparr>announcements_collection :=
                 update_one i update_data (announcements_collection db)\<rparr>"
    by (auto simp: update_announcement_def Let_def update_data_def split: option.splits if_splits)
  have fields:
    "(snd e ++ update_data) ''title'' = Some (BStr title)"
    "(snd e ++ update_data) ''message'' = Some (BStr message)"
    "(snd e ++ update_data) ''start_date'' = Some (py_value start_date)"
    "(snd e ++ update_data) ''expiration_date'' = Some (BStr expiration_date)"
    "(snd e ++ update_data) ''updated_by'' = Some (BStr username)"
    "(snd e ++ update_data) ''updated_at'' = Some (BStr utcnow)"
    "(snd e ++ update_data) ''created_by'' = snd e ''created_by''"
    "(snd e ++ update_data) ''created_at'' = snd e ''created_at''"
    by (simp_all add: update_data_def map_add_def)
  have others: "\<forall>j. j \<noteq> i \<longrightarrow>
      find_one j (announcements_collection db') = find_one j (announcements_collection db)"
    by (simp add: db' update_one_other)
  have ids: "map fst (announcements_collection db') = map fst (announcements_collection db)"
    by (simp add: db' update_one_ids)
  have found: "find_one i (announcements_collection db') = Some (i, snd e ++ update_data)"
    by (simp add: db' upd)
  have ex': "find_one i (announcements_collection db) = Some (i, snd e)"
    using ex e by simp
  have teachers: "teachers_collection db' = teachers_collection db"
    by (simp add: db')
  have rc: "returned ''created_by'' = snd e ''created_by''"
    "returned ''created_at'' = snd e ''created_at''"
    by (simp_all add: ret serialize_other fields)
  show ?thesis
    apply (rule exI [of _ i])
    apply (rule exI [of _ "snd e"])
    apply (rule exI [of _ "snd e ++ update_data"])
    using oid ex' found ret fields others ids teachers rc by blast
qed

theorem update_replaces_and_stamps_witness:
  "update_announcement fromisoformat_example ObjectId_example ''2026-11-03T10:00:00'' school_db
       ''000000000000000000000001'' ''Exam moved'' ''Final exam Monday''
       ''2099-01-01T00:00:00Z'' ''teacher1'' (Some ''2026-12-01T00:00:00'')
     = (Inr (serialize (generated 1, snd exam ++ exam_update)),
        school_db\<lparr>announcements_collection := [(generated 1, snd exam ++ exam_update)]\<rparr>)
   \<and> serialize (generated 1, snd exam ++ exam_update) ''created_by'' = Some (BStr ''teacher1'')
   \<and> serialize (generated 1, snd exam ++ exam_update) ''created_at'' = Some (BStr ''2026-05-01T08:00:00'')"
proof -
  from update_replaces_and_stamps [OF update_example]
  obtain i existing where "ObjectId_example ''000000000000000000000001'' = Some i"
    and "find_one i (announcements_collection school_db) = Some (i, existing)"
    and "serialize (generated 1, snd exam ++ exam_update) ''created_by'' = existing ''created_by''"
    and "serialize (generated 1, snd exam ++ exam_update) ''created_at'' = existing ''created_at''"
    by blast
  then show ?thesis
    using update_example ObjectId_1 school_db_find_1 by (auto simp: exam_def)
qed

section \<open>The order of the lists\<close>

text \<open>
  C7. For every database, the list that list-active returns and the list that list-all
  returns to a known teacher are ordered by \<^verbatim>\<open>created_at\<close> descending: each
  record's \<^verbatim>\<open>created_at\<close> is at or after that of every record that follows it,
  in the order of the store's values.
\<close>

theorem lists_ordered_by_created_at_desc:
  "sorted_wrt (\<lambda>a b. bson_le (b ''created_at'') (a ''created_at''))
     (get_active_announcements current_time db)
   \<and> (get_all_announcements db username = Inr listed \<longrightarrow>
        sorted_wrt (\<lambda>a b. bson_le (b ''created_at'') (a ''created_at'')) listed)"
  by (auto simp: get_active_announcements_def get_all_announcements_def sorted_serialized
      split: option.splits)

theorem lists_ordered_by_created_at_desc_witness:
  "get_all_announcements notice_board ''teacher1'' = Inr (map serialize [scheduled, exam, expired])
   \<and> sorted_wrt (\<lambda>a b. bson_le (b ''created_at'') (a ''created_at''))
        (map serialize [scheduled, exam, expired])"
  using lists_ordered_by_created_at_desc [of "''2026-11-03T10:00:00''" notice_board "''teacher1''"
      "map serialize [scheduled, exam, expired]"] get_all_board
  by blast

section \<open>Delete\<close>

text \<open>
  C8. In a collection whose identifiers are pairwise different (the store keeps
  \<^verbatim>\<open>_id\<close> unique), delete by a known teacher of a well-formed identifier that
  names a stored announcement returns the confirmation message and leaves the collection
  without that one announcement: one element fewer, all others kept. Delete of the same
  identifier on the resulting database answers with status 404.
\<close>

theorem delete_removes_exactly_one:
  assumes "find_teacher username (teachers_collection db) = Some teacher"
    and "ObjectId announcement_id = Some i"
    and "find_one i (announcements_collection db) = Some r"
    and "distinct (map fst (announcements_collection db))"
  shows "delete_announcement ObjectId db announcement_id username
           = (Inr [''message'' \<mapsto> ''Announcement deleted successfully''],
              db\<lparr>announcements_collection :=
                   filter (\<lambda>x. fst x \<noteq> i) (announcements_collection db)\<rparr>)
       \<and> Suc (length (filter (\<lambda>x. fst x \<noteq> i) (announcements_collection db)))
           = length (announcements_collection db)
       \<and> set (filter (\<lambda>x. fst x \<noteq> i) (announcements_collection db))
           = set (announcements_collection db) - {r}
       \<and> delete_announcement ObjectId
            (db\<lparr>announcements_collection :=
                   filter (\<lambda>x. fst x \<noteq> i) (announcements_collection db)\<rparr>)
            announcement_id username
           = (Inl (HTTPException 404 ''Announcement not found''),
              db\<lparr>announcements_collection :=
                   filter (\<lambda>x. fst x \<noteq> i) (announcements_collection db)\<rparr>)"
proof -
  let ?coll = "announcements_collection db"
  let ?rest = "filter (\<lambda>x. fst x \<noteq> i) ?coll"
  from assms(3) have r: "fst r = i" "r \<in> set ?coll"
    using find_one_Some_fst by blast+
  then have present: "i \<in> fst ` set ?coll" by force
  have cnt: "fst (delete_one i ?coll) = 1"
    using present by (rule delete_one_present)
  have rest: "snd (delete_one i ?coll) = ?rest"
    using assms(4) present by (rule delete_one_distinct)
  have first: "delete_announcement ObjectId db announcement_id username
           = (Inr [''message'' \<mapsto> ''Announcement deleted successfully''],
              db\<lparr>announcements_collection := ?rest\<rparr>)"
    using assms(1,2) cnt rest by (simp add: delete_announcement_def Let_def)
  have len: "Suc (length ?rest) = length ?coll"
    using assms(4) present by (rule length_filter_distinct)
  have only: "x = r" if "x \<in> set ?coll" "fst x = i" for x
  proof -
    from that have x: "(i, snd x) \<in> set ?coll" by (metis prod.collapse)
    from r have r': "(i, snd r) \<in> set ?coll" by (metis prod.collapse)
    from assms(4) x r' have "snd x = snd r" by (rule eq_key_imp_eq_value)
    with that(2) r(1) show ?thesis by (simp add: prod_eq_iff)
  qed
  have sets: "set ?rest = set ?coll - {r}"
  proof (rule set_eqI)
    fix x
    show "x \<in> set ?rest \<longleftrightarrow> x \<in> set ?coll - {r}"
    proof (cases "fst x = i")
      case True
      with only [of x] show ?thesis by auto
    next
      case False
      with r(1) show ?thesis by auto
    qed
  qed
  have "i \<notin> fst ` set ?rest" by auto
  then have gone: "delete_one i ?rest = (0, ?rest)" by (rule delete_one_absent)
  have second: "delete_announcement ObjectId (db\<lparr>announcements_collection := ?rest\<rparr>) announcement_id username
           = (Inl (HTTPException 404 ''Announcement not found''),
              db\<lparr>announcements_collection := ?rest\<rparr>)"
    using assms(1,2) gone by (simp add: delete_announcement_def Let_def)
  show ?thesis
    by (rule conjI [OF first conjI [OF len conjI [OF sets second]]])
qed

theorem delete_removes_exactly_one_witness:
  "delete_announcement ObjectId_example school_db ''000000000000000000000001'' ''teacher1''
     = (Inr [''message'' \<mapsto> ''Announcement deleted successfully''],
        school_db\<lparr>announcements_collection := []\<rparr>)
   \<and> delete_announcement ObjectId_example (school_db\<lparr>announcements_collection := []\<rparr>)
        ''000000000000000000000001'' ''teacher1''
     = (Inl (HTTPException 404 ''Announcement not found''),
        school_db\<lparr>announcements_collection := []\<rparr>)"
proof -
  have "filter (\<lambda>x. fst x \<noteq> generated 1) (announcements_collection school_db) = []"
    by (simp add: school_db_def exam_def)
  with delete_removes_exactly_one [where ObjectId = ObjectId_example,
      OF teacher1_found ObjectId_1 school_db_find_1 school_db_distinct]
  show ?thesis by simp
qed

section \<open>The trailing Z\<close>

text \<open>
  C9. Let \<open>t\<close> be a string without the letter Z (an ISO-8601 timestamp has none before
  its zone designator) such that \<open>t\<close> followed by \<^verbatim>\<open>+00:00\<close> parses. Then
  \<open>t\<close> followed by \<^verbatim>\<open>Z\<close> passes the validation of create and of update, as
  expiration date and as start date: create does not answer with status 400, and update
  does not answer with either of its two date errors.
\<close>

theorem trailing_Z_accepted:
  assumes "CHR ''Z'' \<notin> set t"
    and "fromisoformat (t @ ''+00:00'')"
    and "find_teacher username (teachers_collection db) = Some teacher"
  shows "fromisoformat (replace_Z (t @ ''Z''))
       \<and> \<not> start_date_raises fromisoformat (Some (t @ ''Z''))
       \<and> fst (create_announcement fromisoformat utcnow new_id db title message
                (t @ ''Z'') username (Some (t @ ''Z'')))
           \<noteq> Inl (HTTPException 400 detail)
       \<and> fst (update_announcement fromisoformat ObjectId utcnow db announcement_id title message
                (t @ ''Z'') username (Some (t @ ''Z'')))
           \<notin> {Inl (HTTPException 400 ''Invalid expiration date format''),
               Inl (HTTPException 400 ''Invalid start date format'')}"
proof -
  have ok: "fromisoformat (replace_Z (t @ ''Z''))"
    using assms(1,2) by (simp add: replace_Z_trailing)
  then have ok': "\<not> start_date_raises fromisoformat (Some (t @ ''Z''))"
    by simp
  have c: "fst (create_announcement fromisoformat utcnow new_id db title message
                (t @ ''Z'') username (Some (t @ ''Z'')))
           \<noteq> Inl (HTTPException 400 detail)"
    using assms(3) ok ok' by (simp add: create_announcement_def Let_def split: option.split)
  have u: "fst (update_announcement fromisoformat ObjectId utcnow db announcement_id title message
                (t @ ''Z'') username (Some (t @ ''Z'')))
           \<notin> {Inl (HTTPException 400 ''Invalid expiration date format''),
               Inl (HTTPException 400 ''Invalid start date format'')}"
    using assms(3) ok ok' by (simp add: update_announcement_def Let_def split: option.split)
  from ok ok' c u show ?thesis by blast
qed

theorem trailing_Z_accepted_witness:
  "CHR ''Z'' \<notin> set ''2099-01-01T00:00:00''
   \<and> fromisoformat_example (''2099-01-01T00:00:00'' @ ''+00:00'')
   \<and> fromisoformat_example (replace_Z ''2099-01-01T00:00:00Z'')
   \<and> fst (create_announcement fromisoformat_example ''2026-11-03T10:00:00'' 2 school_db
        ''Exam'' ''Final exam Friday'' ''2099-01-01T00:00:00Z'' ''teacher1''
        (Some ''2099-01-01T00:00:00Z''))
       \<noteq> Inl (HTTPException 400 ''Invalid expiration date format'')
   \<and> fst (update_announcement fromisoformat_example ObjectId_example ''2026-11-03T10:00:00'' school_db
        ''000000000000000000000001'' ''Exam'' ''Final exam Friday'' ''2099-01-01T00:00:00Z''
        ''teacher1'' (Some ''2099-01-01T00:00:00Z''))
       \<noteq> Inl (HTTPException 400 ''Invalid expiration date format'')"
proof -
  have a: "CHR ''Z'' \<notin> set ''2099-01-01T00:00:00''" by simp
  have b: "fromisoformat_example (''2099-01-01T00:00:00'' @ ''+00:00'')"
    by (simp add: fromisoformat_example_def)
  from trailing_Z_accepted [where fromisoformat = fromisoformat_example, OF a b teacher1_found] a b show ?thesis
    by simp
qed

section \<open>The empty start date\<close>



end
